theory Spec2Isabelle
  imports Complex_Main "HOL-Library.Product_Lexorder"
begin

section \<open>Python values used by the three services\<close>

text \<open>
  A Python \<open>dict\<close> keeps its keys in insertion order: assigning to a key that is
  present replaces the value where it stands, assigning to a new key appends it, and
  \<open>del\<close> drops the key. The order matters for \<open>min\<close> over \<open>items()\<close>, so a
  dict is an association list. Python ints are \<open>int\<close>.
\<close>

type_synonym ('k, 'v) dict = "('k \<times> 'v) list"

fun dict_get :: "('k, 'v) dict \<Rightarrow> 'k \<Rightarrow> 'v option" where
  "dict_get [] k = None"
| "dict_get ((k', v') # d) k = (if k' = k then Some v' else dict_get d k)"

definition dict_contains :: "('k, 'v) dict \<Rightarrow> 'k \<Rightarrow> bool" where
  "dict_contains d k = (dict_get d k \<noteq> None)"

fun dict_set :: "('k, 'v) dict \<Rightarrow> 'k \<Rightarrow> 'v \<Rightarrow> ('k, 'v) dict" where
  "dict_set [] k v = [(k, v)]"
| "dict_set ((k', v') # d) k v =
     (if k' = k then (k, v) # d else (k', v') # dict_set d k v)"

fun dict_del :: "('k, 'v) dict \<Rightarrow> 'k \<Rightarrow> ('k, 'v) dict" where
  "dict_del [] k = []"
| "dict_del ((k', v') # d) k = (if k' = k then dict_del d k else (k', v') # dict_del d k)"

text \<open>\<open>str(n)\<close> for an int, and \<open>int(x)\<close> for a float (truncation towards zero).\<close>

definition digit_char :: "nat \<Rightarrow> char" where
  "digit_char n = ''0123456789'' ! n"

fun str_nat :: "nat \<Rightarrow> string" where
  "str_nat n = (if n < 10 then [digit_char n]
                else str_nat (n div 10) @ [digit_char (n mod 10)])"

declare str_nat.simps [simp del]

definition str_int :: "int \<Rightarrow> string" where
  "str_int i = (if i < 0 then CHR ''-'' # str_nat (nat (- i)) else str_nat (nat i))"

definition py_int :: "real \<Rightarrow> int" where
  "py_int x = (if 0 \<le> x then \<lfloor>x\<rfloor> else \<lceil>x\<rceil>)"

text \<open>
  \<open>s.split(c)\<close> with a one-character separator, and \<open>s.startswith(p)\<close>. The
  result of \<open>split\<close> is never empty, so \<open>cons_first\<close> always finds a first piece to
  extend.
\<close>

fun cons_first :: "char \<Rightarrow> string list \<Rightarrow> string list" where
  "cons_first x [] = [[x]]"
| "cons_first x (w # ws) = (x # w) # ws"

fun split_on :: "char \<Rightarrow> string \<Rightarrow> string list" where
  "split_on c [] = [[]]"
| "split_on c (x # xs) =
     (if x = c then [] # split_on c xs else cons_first x (split_on c xs))"

definition startswith :: "string \<Rightarrow> string \<Rightarrow> bool" where
  "startswith s p = (take (length p) s = p)"

text \<open>
  A Python float is a finite value, an infinity or NaN. Finite values are idealised as
  reals, with exact arithmetic. The comparisons are those of Python: every comparison
  with NaN is false. In \<open>float_div\<close> a zero divisor, on which Python raises
  ZeroDivisionError, is not told apart: the one division of the source is guarded by
  \<open>total_capacity > 0\<close>.
\<close>

datatype pyfloat = Fin real | PInf | NInf | NaN

fun float_lt :: "pyfloat \<Rightarrow> pyfloat \<Rightarrow> bool" where
  "float_lt (Fin a) (Fin b) = (a < b)"
| "float_lt (Fin a) PInf = True"
| "float_lt NInf (Fin b) = True"
| "float_lt NInf PInf = True"
| "float_lt a b = False"

fun float_le :: "pyfloat \<Rightarrow> pyfloat \<Rightarrow> bool" where
  "float_le (Fin a) (Fin b) = (a \<le> b)"
| "float_le (Fin a) PInf = True"
| "float_le NInf (Fin b) = True"
| "float_le NInf PInf = True"
| "float_le NInf NInf = True"
| "float_le PInf PInf = True"
| "float_le a b = False"

instantiation pyfloat :: ord
begin

definition less_eq_pyfloat :: "pyfloat \<Rightarrow> pyfloat \<Rightarrow> bool" where
  "less_eq_pyfloat a b = float_le a b"

definition less_pyfloat :: "pyfloat \<Rightarrow> pyfloat \<Rightarrow> bool" where
  "less_pyfloat a b = float_lt a b"

instance ..

end

fun float_div :: "pyfloat \<Rightarrow> pyfloat \<Rightarrow> pyfloat" where
  "float_div NaN b = NaN"
| "float_div a NaN = NaN"
| "float_div (Fin a) (Fin b) = Fin (a / b)"
| "float_div (Fin a) PInf = Fin 0"
| "float_div (Fin a) NInf = Fin 0"
| "float_div PInf (Fin b) = (if 0 \<le> b then PInf else NInf)"
| "float_div NInf (Fin b) = (if 0 \<le> b then NInf else PInf)"
| "float_div PInf PInf = NaN"
| "float_div PInf NInf = NaN"
| "float_div NInf PInf = NaN"
| "float_div NInf NInf = NaN"

fun float_mul :: "pyfloat \<Rightarrow> pyfloat \<Rightarrow> pyfloat" where
  "float_mul NaN b = NaN"
| "float_mul a NaN = NaN"
| "float_mul (Fin a) (Fin b) = Fin (a * b)"
| "float_mul (Fin a) PInf = (if a = 0 then NaN else if 0 < a then PInf else NInf)"
| "float_mul (Fin a) NInf = (if a = 0 then NaN else if 0 < a then NInf else PInf)"
| "float_mul PInf (Fin b) = (if b = 0 then NaN else if 0 < b then PInf else NInf)"
| "float_mul NInf (Fin b) = (if b = 0 then NaN else if 0 < b then NInf else PInf)"
| "float_mul PInf PInf = PInf"
| "float_mul PInf NInf = NInf"
| "float_mul NInf PInf = NInf"
| "float_mul NInf NInf = PInf"

text \<open>
  \<open>min(xs, key=f)\<close>: the first element is the candidate, and a later element replaces
  it only when its key is strictly smaller. On an empty sequence Python raises
  ValueError, here \<open>None\<close>.
\<close>

fun min_from :: "('a \<Rightarrow> 'b::ord) \<Rightarrow> 'a \<Rightarrow> 'a list \<Rightarrow> 'a" where
  "min_from key best [] = best"
| "min_from key best (x # xs) = min_from key (if key x < key best then x else best) xs"

definition py_min :: "('a \<Rightarrow> 'b::ord) \<Rightarrow> 'a list \<Rightarrow> 'a option" where
  "py_min key xs = (case xs of [] \<Rightarrow> None | x # rest \<Rightarrow> Some (min_from key x rest))"

text \<open>
  An HTTP exchange made with \<open>requests\<close>: either a response with a status code and a
  body, or an exception (timeout, connection error) carrying its message.
\<close>

datatype http_result = Response int string | RequestException string

section \<open>Substation service: \<open>SubstationState\<close>\<close>

text \<open>
  Powers and the capacity are Python ints, as every client of the repository sends them
  (7, 11, 22, 50, the default 10) and as \<open>random.randint\<close> draws the capacity. A
  request carrying a fractional power is a Python float and is not covered by this
  model of the substation.
\<close>

record session =
  ev_id :: string
  requested_kw :: int
  start_time :: real
  status :: string

record substation_state =
  substation_id :: int
  max_capacity :: int
  current_load :: int
  active_chargers :: int
  charging_sessions :: "(string, session) dict"

definition init_substation :: "int \<Rightarrow> int \<Rightarrow> substation_state" where
  "init_substation sid cap =
     \<lparr>substation_id = sid, max_capacity = cap, current_load = 0,
      active_chargers = 0, charging_sessions = []\<rparr>"

text \<open>The f-string \<open>f"{self.substation_id}_{ev_id}_{int(time.time())}"\<close>.\<close>

definition make_session_id :: "int \<Rightarrow> string \<Rightarrow> real \<Rightarrow> string" where
  "make_session_id sid ev t = str_int sid @ ''_'' @ ev @ ''_'' @ str_int (py_int t)"

text \<open>
  \<open>start_charging\<close> reads the clock twice: \<open>t_id\<close> is the reading that goes into the
  session id, \<open>t_start\<close> the one stored as \<open>start_time\<close>. The result is the session
  id, or \<open>None\<close> as in the source.
\<close>

definition start_charging ::
  "substation_state \<Rightarrow> string \<Rightarrow> int \<Rightarrow> real \<Rightarrow> real \<Rightarrow> substation_state \<times> string option" where
  "start_charging s ev kw t_id t_start =
     (if current_load s + kw \<le> max_capacity s then
        (let session_id = make_session_id (substation_id s) ev t_id in
           (s\<lparr>charging_sessions :=
                 dict_set (charging_sessions s) session_id
                   \<lparr>ev_id = ev, requested_kw = kw, start_time = t_start,
                    status = ''charging''\<rparr>,
               current_load := current_load s + kw,
               active_chargers := active_chargers s + 1\<rparr>,
            Some session_id))
      else (s, None))"

definition stop_charging :: "substation_state \<Rightarrow> string \<Rightarrow> substation_state \<times> bool" where
  "stop_charging s session_id =
     (case dict_get (charging_sessions s) session_id of
        Some sess \<Rightarrow>
          (s\<lparr>current_load := current_load s - requested_kw sess,
             active_chargers := active_chargers s - 1,
             charging_sessions := dict_del (charging_sessions s) session_id\<rparr>,
           True)
      | None \<Rightarrow> (s, False))"




definition sessions_kw :: "(string, session) dict \<Rightarrow> int" where
  "sessions_kw d = sum_list (map (\<lambda>(k, sess). requested_kw sess) d)"



section \<open>Load balancer: \<open>LoadBalancer\<close>\<close>

record metrics =
  m_current_load :: pyfloat
  m_total_capacity :: pyfloat
  load_percentage :: pyfloat
  last_updated :: real

record lb_state =
  substations :: "string list"
  substation_metrics :: "(string, metrics) dict"

definition init_lb :: lb_state where
  "init_lb = \<lparr>substations = [], substation_metrics = []\<rparr>"

definition add_substation :: "lb_state \<Rightarrow> string \<Rightarrow> lb_state \<times> bool" where
  "add_substation s url =
     (if url \<notin> set (substations s)
      then (s\<lparr>substations := substations s @ [url]\<rparr>, True)
      else (s, False))"

definition remove_substation :: "lb_state \<Rightarrow> string \<Rightarrow> lb_state \<times> bool" where
  "remove_substation s url =
     (if url \<in> set (substations s)
      then (s\<lparr>substations := remove1 url (substations s),
               substation_metrics :=
                 (if dict_contains (substation_metrics s) url
                  then dict_del (substation_metrics s) url
                  else substation_metrics s)\<rparr>, True)
      else (s, False))"

text \<open>
  The parsing loop of \<open>poll_substation_metrics\<close>. Python's \<open>float(str)\<close> is a
  parameter \<open>to_float\<close>; \<open>None\<close> is its ValueError. The loop state is the pair
  \<open>(current_load, total_capacity)\<close>, and \<open>None\<close> is an exception leaving the loop.
\<close>

definition second_field :: "(string \<Rightarrow> pyfloat option) \<Rightarrow> string \<Rightarrow> pyfloat option" where
  "second_field to_float line =
     (let parts = split_on CHR '' '' line in
        if 1 < length parts then to_float (parts ! 1) else None)"

fun parse_lines ::
  "(string \<Rightarrow> pyfloat option) \<Rightarrow> pyfloat \<times> pyfloat \<Rightarrow> string list
     \<Rightarrow> (pyfloat \<times> pyfloat) option" where
  "parse_lines to_float acc [] = Some acc"
| "parse_lines to_float (cl, tc) (line # rest) =
     (if startswith line ''current_load '' then
        (case second_field to_float line of
           None \<Rightarrow> None
         | Some v \<Rightarrow> parse_lines to_float (v, tc) rest)
      else if startswith line ''total_capacity '' then
        (case second_field to_float line of
           None \<Rightarrow> None
         | Some v \<Rightarrow> parse_lines to_float (cl, v) rest)
      else parse_lines to_float (cl, tc) rest)"

definition parse_metrics ::
  "(string \<Rightarrow> pyfloat option) \<Rightarrow> string \<Rightarrow> (pyfloat \<times> pyfloat) option" where
  "parse_metrics to_float metrics_text =
     parse_lines to_float (Fin 0, Fin 1) (split_on CHR 0x0A metrics_text)"

definition compute_percentage :: "pyfloat \<Rightarrow> pyfloat \<Rightarrow> pyfloat" where
  "compute_percentage cl tc =
     (if Fin 0 < tc then float_mul (float_div cl tc) (Fin 100) else Fin 0)"

text \<open>
  \<open>poll_substation_metrics\<close>: \<open>resp\<close> is the outcome of the GET on
  \<open>substation_url + "/metrics"\<close>, \<open>now\<close> the clock reading stored as \<open>last_updated\<close>.
  Every exception inside the \<open>try\<close> ends in \<open>return False\<close> with the state as it
  was.
\<close>

definition poll_substation_metrics ::
  "(string \<Rightarrow> pyfloat option) \<Rightarrow> lb_state \<Rightarrow> string \<Rightarrow> http_result \<Rightarrow> real
     \<Rightarrow> lb_state \<times> bool" where
  "poll_substation_metrics to_float s substation_url resp now =
     (case resp of
        RequestException e \<Rightarrow> (s, False)
      | Response status_code body \<Rightarrow>
          if status_code = 200 then
            (case parse_metrics to_float body of
               None \<Rightarrow> (s, False)
             | Some (cl, tc) \<Rightarrow>
                 (s\<lparr>substation_metrics :=
                      dict_set (substation_metrics s) substation_url
                        \<lparr>m_current_load = cl, m_total_capacity = tc,
                         load_percentage = compute_percentage cl tc,
                         last_updated = now\<rparr>\<rparr>,
                  True))
          else (s, False))"

definition get_least_loaded_substation :: "lb_state \<Rightarrow> string option" where
  "get_least_loaded_substation s =
     (if substation_metrics s = [] then None
      else map_option fst (py_min (\<lambda>x. load_percentage (snd x)) (substation_metrics s)))"

text \<open>Sequences of registry and poller operations, run from a state.\<close>

datatype lb_op = Add string | Remove string | Poll string http_result real

fun lb_step :: "(string \<Rightarrow> pyfloat option) \<Rightarrow> lb_state \<Rightarrow> lb_op \<Rightarrow> lb_state" where
  "lb_step to_float s (Add url) = fst (add_substation s url)"
| "lb_step to_float s (Remove url) = fst (remove_substation s url)"
| "lb_step to_float s (Poll url resp now) = fst (poll_substation_metrics to_float s url resp now)"

fun lb_run :: "(string \<Rightarrow> pyfloat option) \<Rightarrow> lb_state \<Rightarrow> lb_op list \<Rightarrow> lb_state" where
  "lb_run to_float s [] = s"
| "lb_run to_float s (x # xs) = lb_run to_float (lb_step to_float s x) xs"

text \<open>A cache none of whose percentages is NaN.\<close>

definition nan_free :: "(string, metrics) dict \<Rightarrow> bool" where
  "nan_free d = (\<forall>e \<in> set d. load_percentage (snd e) \<noteq> NaN)"

text \<open>
  The tie-break as the specification words it: among the endpoints of the registry
  list, in that list's order, the first one whose cached percentage is minimal.
\<close>

definition is_minimal :: "(string, metrics) dict \<Rightarrow> metrics \<Rightarrow> bool" where
  "is_minimal d m = (\<forall>e \<in> set d. load_percentage m \<le> load_percentage (snd e))"

definition select_in_registry_order :: "lb_state \<Rightarrow> string option" where
  "select_in_registry_order s =
     find (\<lambda>url. case dict_get (substation_metrics s) url of
                    None \<Rightarrow> False
                  | Some m \<Rightarrow> is_minimal (substation_metrics s) m)
          (substations s)"

section \<open>Charge request service: \<open>ChargeRequestService\<close>\<close>

record tracked_session =
  t_ev_id :: string
  t_requested_kw :: int
  t_substation_id :: int
  t_start_time :: real
  t_duration_minutes :: "int option"

record crs_state =
  load_balancer_url :: string
  active_sessions :: "(string, tracked_session) dict"

datatype stop_result = Stopped string | StopError string

definition stop_url :: "int \<Rightarrow> string \<Rightarrow> string" where
  "stop_url sid session_id =
     ''http://substation_'' @ str_int sid @ '':5000'' @ ''/charge/'' @ session_id"

text \<open>
  \<open>stop_charging_session\<close>: \<open>http_delete\<close> gives the outcome of the DELETE sent to a
  URL. No request is made when the session is not tracked.
\<close>

definition stop_charging_session ::
  "(string \<Rightarrow> http_result) \<Rightarrow> crs_state \<Rightarrow> string \<Rightarrow> crs_state \<times> stop_result" where
  "stop_charging_session http_delete s session_id =
     (case dict_get (active_sessions s) session_id of
        None \<Rightarrow> (s, StopError ''Session not found'')
      | Some sess \<Rightarrow>
          (case http_delete (stop_url (t_substation_id sess) session_id) of
             RequestException e \<Rightarrow> (s, StopError e)
           | Response status_code body \<Rightarrow>
               if status_code = 200 then
                 (s\<lparr>active_sessions := dict_del (active_sessions s) session_id\<rparr>,
                  Stopped session_id)
               else (s, StopError (''Failed to stop session: '' @ str_int status_code))))"

section \<open>Example inputs for concrete runs\<close>

text \<open>
  A stand-in for \<open>float\<close> on the strings that occur in the examples (all of them
  give percentages that Python computes without rounding), the two gauge lines of a
  substation's metrics page, and a 200 response carrying them.
\<close>

definition example_floats :: "string \<Rightarrow> pyfloat option" where
  "example_floats = map_of [(''10.0'', Fin 10), (''20.0'', Fin 20), (''50.0'', Fin 50),
     (''80.0'', Fin 80), (''90.0'', Fin 90), (''100.0'', Fin 100), (''nan'', NaN),
     (''inf'', PInf)]"

definition example_body :: "string \<Rightarrow> string \<Rightarrow> string" where
  "example_body cl tc =
     ''current_load '' @ cl @ [CHR 0x0A] @ ''total_capacity '' @ tc @ [CHR 0x0A]"

definition example_ok :: "string \<Rightarrow> string \<Rightarrow> http_result" where
  "example_ok cl tc = Response 200 (example_body cl tc)"

section \<open>An order embedding of the floats other than NaN\<close>

fun float_rank :: "pyfloat \<Rightarrow> int \<times> real" where
  "float_rank NInf = (- 1, 0)"
| "float_rank (Fin a) = (0, a)"
| "float_rank PInf = (1, 0)"
| "float_rank NaN = (2, 0)"

section \<open>Invariants of the substation\<close>



section \<open>Dictionary facts\<close>

lemma dict_get_set: "dict_get (dict_set d k v) k' = (if k' = k then Some v else dict_get d k')"
  by (induction d) auto

lemma dict_get_del: "dict_get (dict_del d k) k' = (if k' = k then None else dict_get d k')"
  by (induction d) auto


lemma dict_set_set: "dict_set (dict_set d k v) k v' = dict_set d k v'"
  by (induction d) auto

lemma length_dict_set:
  "length (dict_set d k v) = (if dict_get d k = None then Suc (length d) else length d)"
  by (induction d) (auto split: if_splits)





lemma set_dict_set: "set (dict_set d k v) \<subseteq> insert (k, v) (set d)"
  by (induction d) (auto split: if_splits)


lemma dict_get_None_keys: "(dict_get d k = None) = (k \<notin> fst ` set d)"
  by (induction d) (auto split: if_splits)




section \<open>Evaluation rules for concrete runs\<close>

lemmas ev = init_substation_def start_charging_def stop_charging_def Let_def make_session_id_def
  str_int_def str_nat.simps digit_char_def py_int_def dict_contains_def sessions_kw_def


section \<open>The substation state machine\<close>











text \<open>
  Claim C10. Two accepted \<open>start_charging\<close> calls with the same \<open>ev_id\<close> whose clock
  readings truncate to the same second return the same session id. The session set
  afterwards is the set before the first call with that one id bound to the second
  call's session, so it has as many entries as after the first call, while
  \<open>current_load\<close> has grown by both requests and \<open>active_chargers\<close> by two.
\<close>

theorem session_id_collision:
  assumes "py_int t1 = py_int t2"
    and "current_load s + kw1 \<le> max_capacity s"
    and "current_load s + kw1 + kw2 \<le> max_capacity s"
  shows "snd (start_charging s ev kw1 t1 t1') = Some (make_session_id (substation_id s) ev t1)
    \<and> snd (start_charging (fst (start_charging s ev kw1 t1 t1')) ev kw2 t2 t2')
        = Some (make_session_id (substation_id s) ev t1)
    \<and> charging_sessions (fst (start_charging (fst (start_charging s ev kw1 t1 t1')) ev kw2 t2 t2'))
        = dict_set (charging_sessions s) (make_session_id (substation_id s) ev t1)
            \<lparr>ev_id = ev, requested_kw = kw2, start_time = t2', status = ''charging''\<rparr>
    \<and> length (charging_sessions
          (fst (start_charging (fst (start_charging s ev kw1 t1 t1')) ev kw2 t2 t2')))
        = length (charging_sessions (fst (start_charging s ev kw1 t1 t1')))
    \<and> current_load (fst (start_charging (fst (start_charging s ev kw1 t1 t1')) ev kw2 t2 t2'))
        = current_load s + kw1 + kw2
    \<and> active_chargers (fst (start_charging (fst (start_charging s ev kw1 t1 t1')) ev kw2 t2 t2'))
        = active_chargers s + 2"
proof -
  have same: "make_session_id (substation_id s) ev t2 = make_session_id (substation_id s) ev t1"
    using assms(1) by (simp add: make_session_id_def)
  show ?thesis
    using assms(2,3)
    by (simp add: start_charging_def Let_def same dict_set_set length_dict_set)
qed

text \<open>Such a pair exists: two calls for \<open>EV\<close> at 5.0 s and 5.5 s on a fresh substation.\<close>

theorem session_id_collision_witness:
  "py_int 5 = py_int (5 + 1/2)
   \<and> start_charging (fst (start_charging (init_substation 1 100) ''EV'' 10 5 5)) ''EV'' 20 (5 + 1/2) (5 + 1/2)
     = (\<lparr>substation_id = 1, max_capacity = 100, current_load = 30, active_chargers = 2,
         charging_sessions = [(''1_EV_5'',
            \<lparr>ev_id = ''EV'', requested_kw = 20, start_time = 5 + 1/2, status = ''charging''\<rparr>)]\<rparr>,
        Some ''1_EV_5'')
   \<and> snd (start_charging (init_substation 1 100) ''EV'' 10 5 5) = Some ''1_EV_5''"
  using session_id_collision [of 5 "5 + 1/2" "init_substation 1 100" 10 20 "''EV''" 5 "5 + 1/2"]
  by (simp add: ev)


text \<open>
  Claim C3. \<open>start_charging\<close> returns a session id exactly when
  \<open>current_load + requested_kw \<le> max_capacity\<close>. On accept the load grows by
  \<open>requested_kw\<close>, the charger count by one, and the returned id is bound to a session
  with the given EV and power, every other id keeping its binding. On reject the result
  is \<open>None\<close> and the state is the one before the call.
\<close>

theorem start_charging_accept_iff:
  "(\<exists>sid. snd (start_charging s ev kw t_id t_start) = Some sid)
     = (current_load s + kw \<le> max_capacity s)
   \<and> (current_load s + kw \<le> max_capacity s \<longrightarrow>
        (let r = start_charging s ev kw t_id t_start;
             sid = make_session_id (substation_id s) ev t_id in
          snd r = Some sid
          \<and> current_load (fst r) = current_load s + kw
          \<and> active_chargers (fst r) = active_chargers s + 1
          \<and> max_capacity (fst r) = max_capacity s
          \<and> dict_get (charging_sessions (fst r)) sid =
              Some \<lparr>ev_id = ev, requested_kw = kw, start_time = t_start, status = ''charging''\<rparr>
          \<and> (\<forall>k. k \<noteq> sid \<longrightarrow>
                dict_get (charging_sessions (fst r)) k = dict_get (charging_sessions s) k)))
   \<and> (\<not> current_load s + kw \<le> max_capacity s \<longrightarrow>
        start_charging s ev kw t_id t_start = (s, None))"
  by (simp add: start_charging_def Let_def dict_get_set)

text \<open>An accepted request on a fresh substation and a rejected one at load 90 of 100.\<close>

theorem start_charging_accept_iff_witness:
  "(let s = init_substation 1 100; r = start_charging s ''EV'' 22 5 5 in
      snd r = Some ''1_EV_5'' \<and> current_load (fst r) = 22
      \<and> dict_contains (charging_sessions (fst r)) ''1_EV_5'')
   \<and> (let s = (init_substation 1 100)\<lparr>current_load := 90\<rparr> in
        start_charging s ''EV'' 22 5 5 = (s, None))"
  using start_charging_accept_iff [of "init_substation 1 100" "''EV''" 22 5 5]
        start_charging_accept_iff [of "(init_substation 1 100)\<lparr>current_load := 90\<rparr>" "''EV''" 22 5 5]
  by (simp add: init_substation_def Let_def make_session_id_def str_int_def str_nat.simps
        digit_char_def py_int_def dict_contains_def)

text \<open>
  Claim C4. \<open>stop_charging\<close> on an id that is not in the session set returns
  \<open>False\<close> and the state unchanged. On an id that is present it returns \<open>True\<close>,
  removes that session only, subtracts its \<open>requested_kw\<close> from the load and
  decrements the charger count.
\<close>

theorem stop_charging_cases:
  "(\<not> dict_contains (charging_sessions s) session_id \<longrightarrow>
      stop_charging s session_id = (s, False))
   \<and> (\<forall>sess. dict_get (charging_sessions s) session_id = Some sess \<longrightarrow>
        (let r = stop_charging s session_id in
           snd r = True
           \<and> current_load (fst r) = current_load s - requested_kw sess
           \<and> active_chargers (fst r) = active_chargers s - 1
           \<and> max_capacity (fst r) = max_capacity s
           \<and> \<not> dict_contains (charging_sessions (fst r)) session_id
           \<and> (\<forall>k. k \<noteq> session_id \<longrightarrow>
                 dict_get (charging_sessions (fst r)) k = dict_get (charging_sessions s) k)))"
  by (auto simp: stop_charging_def dict_contains_def Let_def dict_get_del)

text \<open>Stopping an unknown id on a fresh substation, and stopping a started session.\<close>

theorem stop_charging_cases_witness:
  "stop_charging (init_substation 1 100) ''1_EV_5'' = (init_substation 1 100, False)
   \<and> stop_charging (fst (start_charging (init_substation 1 100) ''EV'' 22 5 5)) ''1_EV_5''
       = (init_substation 1 100, True)"
  using stop_charging_cases [of "init_substation 1 100" "''1_EV_5''"]
        stop_charging_cases [of "fst (start_charging (init_substation 1 100) ''EV'' 22 5 5)"
          "''1_EV_5''"]
  by (simp add: ev)

section \<open>Selection of the least loaded endpoint\<close>

text \<open>Under a linear order \<open>min_from\<close> finds the first of the least elements.\<close>

lemma min_from_split:
  fixes key :: "'a \<Rightarrow> 'b::linorder"
  shows "\<exists>pre post. b # xs = pre @ min_from key b xs # post
     \<and> (\<forall>y \<in> set pre. key (min_from key b xs) < key y)
     \<and> (\<forall>y \<in> set post. key (min_from key b xs) \<le> key y)"
proof (induction xs arbitrary: b)
  case Nil
  show ?case by (intro exI [of _ "[]"]) simp
next
  case (Cons x xs)
  define b' where "b' = (if key x < key b then x else b)"
  define m where "m = min_from key b' xs"
  have step: "min_from key b (x # xs) = m"
    by (simp add: m_def b'_def)
  from Cons.IH [of b'] obtain pre post where
    dec: "b' # xs = pre @ m # post"
    and lt: "\<forall>y \<in> set pre. key m < key y"
    and le: "\<forall>y \<in> set post. key m \<le> key y"
    unfolding m_def by blast
  have m_le: "key m \<le> key b'"
  proof (cases pre)
    case Nil
    with dec show ?thesis by simp
  next
    case (Cons p ps)
    with dec have "b' \<in> set pre" by simp
    with lt show ?thesis by (simp add: less_imp_le)
  qed
  have "\<exists>pre post. b # x # xs = pre @ m # post
     \<and> (\<forall>y \<in> set pre. key m < key y) \<and> (\<forall>y \<in> set post. key m \<le> key y)"
  proof (cases "key x < key b")
    case True
    then have b': "b' = x" by (simp add: b'_def)
    have "b # x # xs = (b # pre) @ m # post" using dec b' by simp
    moreover have "key m < key b" using m_le True b' by simp
    ultimately show ?thesis using lt le
      by (intro exI [of _ "b # pre"] exI [of _ post]) simp
  next
    case False
    then have b': "b' = b" by (simp add: b'_def)
    show ?thesis
    proof (cases pre)
      case Nil
      with dec b' have "m = b" and "post = xs" by simp_all
      then have "b # x # xs = [] @ m # (x # post)" by simp
      moreover have "key m \<le> key x" using \<open>m = b\<close> False by simp
      ultimately show ?thesis using le
        by (intro exI [of _ "[]"] exI [of _ "x # post"]) simp
    next
      case (Cons p ps)
      with dec b' have p: "p = b" and xs: "xs = ps @ m # post" by simp_all
      have "key m < key b" using lt Cons p by simp
      then have "key m < key x" using False by simp
      moreover have "b # x # xs = (b # x # ps) @ m # post" using xs by simp
      ultimately show ?thesis using lt le Cons p
        by (intro exI [of _ "b # x # ps"] exI [of _ post]) simp
    qed
  qed
  then show ?case unfolding step .
qed

lemma find_first: "P x \<Longrightarrow> \<forall>y \<in> set pre. \<not> P y \<Longrightarrow> find P (pre @ x # post) = Some x"
  by (induction pre) auto

text \<open>The comparisons of floats, away from NaN, are those of the ranks.\<close>

lemma float_less_rank:
  "a \<noteq> NaN \<Longrightarrow> b \<noteq> NaN \<Longrightarrow> (a < b) = (float_rank a < float_rank b)"
  by (cases a; cases b) (simp_all add: less_pyfloat_def)

lemma float_le_rank:
  "a \<noteq> NaN \<Longrightarrow> b \<noteq> NaN \<Longrightarrow> (a \<le> b) = (float_rank a \<le> float_rank b)"
  by (cases a; cases b) (simp_all add: less_eq_pyfloat_def)

lemma float_less_trans: "(a::pyfloat) < b \<Longrightarrow> b < c \<Longrightarrow> a < c"
  by (cases a; cases b; cases c) (simp_all add: less_pyfloat_def)

lemma float_less_irrefl: "\<not> (a::pyfloat) < a"
  by (cases a) (simp_all add: less_pyfloat_def)

lemma float_less_not_le: "(a::pyfloat) < b \<Longrightarrow> \<not> b \<le> a"
  by (cases a; cases b) (simp_all add: less_pyfloat_def less_eq_pyfloat_def)

lemma float_less_imp_le: "(a::pyfloat) < b \<Longrightarrow> a \<le> b"
  by (cases a; cases b) (simp_all add: less_pyfloat_def less_eq_pyfloat_def)

lemma float_le_refl: "a \<noteq> NaN \<Longrightarrow> (a::pyfloat) \<le> a"
  by (cases a) (simp_all add: less_eq_pyfloat_def)

lemma min_from_rank:
  fixes key :: "'a \<Rightarrow> pyfloat"
  assumes "\<forall>x \<in> set (b # xs). key x \<noteq> NaN"
  shows "min_from key b xs = min_from (\<lambda>x. float_rank (key x)) b xs"
  using assms
proof (induction xs arbitrary: b)
  case Nil
  show ?case by simp
next
  case (Cons x xs)
  have cmp: "(key x < key b) = (float_rank (key x) < float_rank (key b))"
    using Cons.prems by (simp add: float_less_rank)
  have "\<forall>y \<in> set ((if key x < key b then x else b) # xs). key y \<noteq> NaN"
    using Cons.prems by simp
  from Cons.IH [OF this] show ?case
    by (simp add: cmp)
qed

lemma least_loaded_split:
  assumes ne: "substation_metrics s \<noteq> []"
    and nf: "nan_free (substation_metrics s)"
  shows "\<exists>u m pre post. get_least_loaded_substation s = Some u
     \<and> substation_metrics s = pre @ (u, m) # post
     \<and> (\<forall>e \<in> set pre. load_percentage m < load_percentage (snd e))
     \<and> (\<forall>e \<in> set post. load_percentage m \<le> load_percentage (snd e))"
proof -
  from ne obtain b rest where c: "substation_metrics s = b # rest"
    by (cases "substation_metrics s") auto
  define key where "key = (\<lambda>x::string \<times> metrics. load_percentage (snd x))"
  define e where "e = min_from key b rest"
  have nn: "\<forall>x \<in> set (b # rest). key x \<noteq> NaN"
    using nf by (simp add: c nan_free_def key_def)
  have eq: "min_from (\<lambda>x. float_rank (key x)) b rest = e"
    unfolding e_def by (rule min_from_rank [OF nn, symmetric])
  from min_from_split [of b rest "\<lambda>x. float_rank (key x)"] obtain pre post where
    dec: "b # rest = pre @ e # post"
    and lt: "\<forall>y \<in> set pre. float_rank (key e) < float_rank (key y)"
    and le: "\<forall>y \<in> set post. float_rank (key e) \<le> float_rank (key y)"
    unfolding eq by blast
  have all: "\<forall>y \<in> set pre \<union> {e} \<union> set post. key y \<noteq> NaN"
    using nn unfolding dec by simp
  have lt': "\<forall>y \<in> set pre. key e < key y"
    using lt all by (simp add: float_less_rank)
  have le': "\<forall>y \<in> set post. key e \<le> key y"
    using le all by (simp add: float_le_rank)
  have r: "get_least_loaded_substation s = Some (fst e)"
    by (simp add: get_least_loaded_substation_def py_min_def c e_def key_def)
  have "substation_metrics s = pre @ (fst e, snd e) # post"
    using dec c by simp
  with r lt' le' show ?thesis
    unfolding key_def by (intro exI [of _ "fst e"] exI [of _ "snd e"] exI [of _ pre]
        exI [of _ post]) simp
qed

lemma least_loaded_find:
  assumes nf: "nan_free (substation_metrics s)"
  shows "get_least_loaded_substation s =
     map_option fst (find (\<lambda>e. is_minimal (substation_metrics s) (snd e)) (substation_metrics s))"
proof (cases "substation_metrics s = []")
  case True
  then show ?thesis by (simp add: get_least_loaded_substation_def)
next
  case False
  from least_loaded_split [OF False nf] obtain u m pre post where
    r: "get_least_loaded_substation s = Some u"
    and dec: "substation_metrics s = pre @ (u, m) # post"
    and lt: "\<forall>e \<in> set pre. load_percentage m < load_percentage (snd e)"
    and le: "\<forall>e \<in> set post. load_percentage m \<le> load_percentage (snd e)"
    by blast
  have "load_percentage m \<noteq> NaN"
    using nf by (simp add: dec nan_free_def)
  then have "load_percentage m \<le> load_percentage m"
    by (rule float_le_refl)
  then have min: "is_minimal (pre @ (u, m) # post) m"
    using lt le by (auto simp: is_minimal_def float_less_imp_le)
  have "\<forall>y \<in> set pre. \<not> is_minimal (pre @ (u, m) # post) (snd y)"
    using lt by (auto simp: is_minimal_def dest: float_less_not_le)
  with min have "find (\<lambda>e. is_minimal (pre @ (u, m) # post) (snd e)) (pre @ (u, m) # post)
       = Some (u, m)"
    by (intro find_first) simp_all
  then show ?thesis using r dec by simp
qed

lemma least_loaded_minimal:
  assumes ne: "substation_metrics s \<noteq> []"
    and nf: "nan_free (substation_metrics s)"
  shows "\<exists>u m. get_least_loaded_substation s = Some u
     \<and> (u, m) \<in> set (substation_metrics s) \<and> is_minimal (substation_metrics s) m"
proof -
  from least_loaded_split [OF ne nf] obtain u m pre post where
    r: "get_least_loaded_substation s = Some u"
    and dec: "substation_metrics s = pre @ (u, m) # post"
    and lt: "\<forall>e \<in> set pre. load_percentage m < load_percentage (snd e)"
    and le: "\<forall>e \<in> set post. load_percentage m \<le> load_percentage (snd e)"
    by blast
  have "load_percentage m \<noteq> NaN"
    using nf by (simp add: dec nan_free_def)
  then have "load_percentage m \<le> load_percentage m"
    by (rule float_le_refl)
  then have "is_minimal (substation_metrics s) m"
    unfolding dec using lt le by (auto simp: is_minimal_def float_less_imp_le)
  with r dec show ?thesis by auto
qed

lemma in_set_dict_get: "distinct (map fst d) \<Longrightarrow> (k, v) \<in> set d \<Longrightarrow> dict_get d k = Some v"
  by (induction d) (auto simp: image_iff)

text \<open>
  An element of key 0 under \<open>url\<close> wins against elements of positive key: once the
  candidate is an element of \<open>url\<close> whose key is not positive, it stays one.
\<close>

lemma min_from_stays:
  fixes key :: "string \<times> 'v \<Rightarrow> pyfloat"
  assumes "fst b = url \<and> \<not> Fin 0 < key b"
    and "\<forall>x \<in> set xs. fst x \<noteq> url \<longrightarrow> Fin 0 < key x"
  shows "fst (min_from key b xs) = url \<and> \<not> Fin 0 < key (min_from key b xs)"
  using assms
proof (induction xs arbitrary: b)
  case Nil
  then show ?case by simp
next
  case (Cons x xs)
  have "fst x = url \<and> \<not> Fin 0 < key x" if less: "key x < key b"
  proof -
    have pos: "\<not> Fin 0 < key x"
    proof
      assume "Fin 0 < key x"
      then have "Fin 0 < key b" using less by (rule float_less_trans)
      with Cons.prems(1) show False by simp
    qed
    with Cons.prems(2) show ?thesis by auto
  qed
  then have "fst (if key x < key b then x else b) = url
      \<and> \<not> Fin 0 < key (if key x < key b then x else b)"
    using Cons.prems(1) by simp
  moreover have "\<forall>y \<in> set xs. fst y \<noteq> url \<longrightarrow> Fin 0 < key y"
    using Cons.prems(2) by simp
  ultimately show ?case
    using Cons.IH [of "if key x < key b then x else b"] by simp
qed

lemma min_from_prefers:
  fixes key :: "string \<times> 'v \<Rightarrow> pyfloat"
  assumes "\<forall>x \<in> set (b # xs). fst x \<noteq> url \<longrightarrow> Fin 0 < key x"
    and "\<exists>x \<in> set (b # xs). fst x = url \<and> key x = Fin 0"
  shows "fst (min_from key b xs) = url"
  using assms
proof (induction xs arbitrary: b)
  case Nil
  then show ?case by simp
next
  case (Cons x xs)
  define b' where "b' = (if key x < key b then x else b)"
  have step: "min_from key b (x # xs) = min_from key b' xs"
    by (simp add: b'_def)
  have rest: "\<forall>y \<in> set xs. fst y \<noteq> url \<longrightarrow> Fin 0 < key y"
    using Cons.prems(1) by simp
  show ?case
  proof (cases "fst b = url \<and> \<not> Fin 0 < key b")
    case True
    have "\<forall>y \<in> set (x # xs). fst y \<noteq> url \<longrightarrow> Fin 0 < key y"
      using Cons.prems(1) by simp
    from min_from_stays [OF True this] show ?thesis by simp
  next
    case False
    then have pos: "Fin 0 < key b" using Cons.prems(1) by auto
    from Cons.prems(2) obtain t where
      t: "t \<in> set (b # x # xs)" "fst t = url" "key t = Fin 0"
      by blast
    have "t \<noteq> b" using pos t(3) by (auto simp: float_less_irrefl)
    with t(1) have tin: "t = x \<or> t \<in> set xs" by auto
    show ?thesis
    proof (cases "t = x")
      case True
      then have "key x < key b" using pos t(3) by simp
      then have "b' = x" by (simp add: b'_def)
      moreover have "fst x = url \<and> \<not> Fin 0 < key x"
        using True t by (simp add: float_less_irrefl)
      ultimately show ?thesis
        unfolding step using min_from_stays [OF _ rest, of x] by simp
    next
      case False
      with tin have "t \<in> set xs" by simp
      then have ex: "\<exists>y \<in> set (b' # xs). fst y = url \<and> key y = Fin 0"
        using t by auto
      have "\<forall>y \<in> set (b' # xs). fst y \<noteq> url \<longrightarrow> Fin 0 < key y"
        using Cons.prems(1) by (simp add: b'_def)
      from Cons.IH [OF this ex] show ?thesis
        unfolding step .
    qed
  qed
qed

section \<open>The load balancer and the session tracker\<close>

lemmas lb_ev = init_lb_def add_substation_def remove_substation_def poll_substation_metrics_def
  parse_metrics_def startswith_def second_field_def compute_percentage_def
  get_least_loaded_substation_def py_min_def dict_contains_def less_pyfloat_def
  less_eq_pyfloat_def nan_free_def

lemma in_dict_set: "(k, v) \<in> set (dict_set d k v)"
  by (induction d) auto

lemma parse_lines_no_match:
  "\<forall>line \<in> set ls. \<not> startswith line ''current_load '' \<and> \<not> startswith line ''total_capacity ''
     \<Longrightarrow> parse_lines tf acc ls = Some acc"
  by (induction ls arbitrary: acc) (auto split: prod.splits)

lemma distinct_substations_step:
  "distinct (substations s) \<Longrightarrow> distinct (substations (lb_step tf s x))"
  by (cases x)
     (auto simp: add_substation_def remove_substation_def poll_substation_metrics_def
        split: http_result.splits option.splits)

lemma distinct_substations_run:
  "distinct (substations s) \<Longrightarrow> distinct (substations (lb_run tf s ops))"
  by (induction ops arbitrary: s) (simp_all add: distinct_substations_step)

lemmas ex_ev = example_floats_def example_body_def example_ok_def

text \<open>
  Claim C1, as amended. \<open>get_least_loaded_substation\<close> returns \<open>None\<close> exactly
  when the telemetry cache is empty. On a non-empty cache none of whose percentages is
  NaN it returns an endpoint of the cache whose entry has the least
  \<open>load_percentage\<close> of all cached entries. After one successful poll of \<open>a\<close> on an
  empty cache it returns \<open>a\<close>. With two cached endpoints it returns the second one
  when its percentage compares smaller and the first one otherwise, so the answer
  switches when the percentages cross.
\<close>

theorem select_target:
  "(get_least_loaded_substation s = None) = (substation_metrics s = [])
   \<and> (substation_metrics s \<noteq> [] \<and> nan_free (substation_metrics s) \<longrightarrow>
        (\<exists>u m. get_least_loaded_substation s = Some u
           \<and> (u, m) \<in> set (substation_metrics s)
           \<and> (distinct (map fst (substation_metrics s)) \<longrightarrow>
                dict_get (substation_metrics s) u = Some m)
           \<and> (\<forall>e \<in> set (substation_metrics s). load_percentage m \<le> load_percentage (snd e))))
   \<and> (substation_metrics s = [] \<and> parse_metrics tf body = Some (cl, tc) \<longrightarrow>
        get_least_loaded_substation
          (fst (poll_substation_metrics tf s a (Response 200 body) now)) = Some a)
   \<and> (substation_metrics s = [(a, ma), (b, mb)] \<longrightarrow>
        get_least_loaded_substation s
          = Some (if load_percentage mb < load_percentage ma then b else a))"
proof (intro conjI impI)
  show "(get_least_loaded_substation s = None) = (substation_metrics s = [])"
    by (cases "substation_metrics s")
       (simp_all add: get_least_loaded_substation_def py_min_def)
next
  assume h: "substation_metrics s \<noteq> [] \<and> nan_free (substation_metrics s)"
  from least_loaded_minimal [of s] h obtain u m where
    "get_least_loaded_substation s = Some u" "(u, m) \<in> set (substation_metrics s)"
    "is_minimal (substation_metrics s) m"
    by blast
  then show "\<exists>u m. get_least_loaded_substation s = Some u
           \<and> (u, m) \<in> set (substation_metrics s)
           \<and> (distinct (map fst (substation_metrics s)) \<longrightarrow>
                dict_get (substation_metrics s) u = Some m)
           \<and> (\<forall>e \<in> set (substation_metrics s). load_percentage m \<le> load_percentage (snd e))"
    by (intro exI [of _ u] exI [of _ m]) (simp add: is_minimal_def in_set_dict_get)
next
  assume "substation_metrics s = [] \<and> parse_metrics tf body = Some (cl, tc)"
  then show "get_least_loaded_substation
          (fst (poll_substation_metrics tf s a (Response 200 body) now)) = Some a"
    by (simp add: poll_substation_metrics_def get_least_loaded_substation_def py_min_def)
next
  assume "substation_metrics s = [(a, ma), (b, mb)]"
  then show "get_least_loaded_substation s
          = Some (if load_percentage mb < load_percentage ma then b else a)"
    by (simp add: get_least_loaded_substation_def py_min_def)
qed

text \<open>
  The scenario of the specification: an empty cache, then \<open>A\<close> polled at 20 per cent,
  then \<open>B\<close> at 80, then \<open>A\<close> at 90 and \<open>B\<close> at 10.
\<close>

theorem select_target_witness:
  "get_least_loaded_substation init_lb = None
   \<and> get_least_loaded_substation (lb_run example_floats init_lb
        [Add ''A'', Add ''B'', Poll ''A'' (example_ok ''20.0'' ''100.0'') 1]) = Some ''A''
   \<and> nan_free (substation_metrics (lb_run example_floats init_lb
        [Add ''A'', Add ''B'', Poll ''A'' (example_ok ''20.0'' ''100.0'') 1,
         Poll ''B'' (example_ok ''80.0'' ''100.0'') 1]))
   \<and> get_least_loaded_substation (lb_run example_floats init_lb
        [Add ''A'', Add ''B'', Poll ''A'' (example_ok ''20.0'' ''100.0'') 1,
         Poll ''B'' (example_ok ''80.0'' ''100.0'') 1]) = Some ''A''
   \<and> get_least_loaded_substation (lb_run example_floats init_lb
        [Add ''A'', Add ''B'', Poll ''A'' (example_ok ''20.0'' ''100.0'') 1,
         Poll ''B'' (example_ok ''80.0'' ''100.0'') 1,
         Poll ''A'' (example_ok ''90.0'' ''100.0'') 6,
         Poll ''B'' (example_ok ''10.0'' ''100.0'') 6]) = Some ''B''"
  using select_target [of init_lb]
        select_target [of "lb_run example_floats init_lb [Add ''A'', Add ''B'']" example_floats
          "example_body ''20.0'' ''100.0''" "Fin 20" "Fin 100" "''A''" 1]
        select_target [of "lb_run example_floats init_lb
          [Add ''A'', Add ''B'', Poll ''A'' (example_ok ''20.0'' ''100.0'') 1,
           Poll ''B'' (example_ok ''80.0'' ''100.0'') 1]" _ _ _ _ "''A''" _
          "\<lparr>m_current_load = Fin 20, m_total_capacity = Fin 100, load_percentage = Fin 20,
            last_updated = 1\<rparr>" "''B''"
          "\<lparr>m_current_load = Fin 80, m_total_capacity = Fin 100, load_percentage = Fin 80,
            last_updated = 1\<rparr>"]
        select_target [of "lb_run example_floats init_lb
          [Add ''A'', Add ''B'', Poll ''A'' (example_ok ''20.0'' ''100.0'') 1,
           Poll ''B'' (example_ok ''80.0'' ''100.0'') 1,
           Poll ''A'' (example_ok ''90.0'' ''100.0'') 6,
           Poll ''B'' (example_ok ''10.0'' ''100.0'') 6]" _ _ _ _ "''A''" _
          "\<lparr>m_current_load = Fin 90, m_total_capacity = Fin 100, load_percentage = Fin 90,
            last_updated = 6\<rparr>" "''B''"
          "\<lparr>m_current_load = Fin 10, m_total_capacity = Fin 100, load_percentage = Fin 10,
            last_updated = 6\<rparr>"]
  by (simp add: lb_ev ex_ev)

text \<open>
  Claim C1 as stated fails on a cache that holds a NaN. \<open>float\<close> accepts \<open>nan\<close>, so
  a substation reporting \<open>current_load nan\<close> is cached with percentage NaN. No later
  entry compares smaller than NaN, so \<open>A\<close> stays the candidate and is returned,
  although its percentage is not below the 10 per cent of \<open>B\<close>.
\<close>

theorem select_target_counterexample:
  "map fst (substation_metrics (lb_run example_floats init_lb
      [Add ''A'', Add ''B'', Poll ''A'' (example_ok ''nan'' ''100.0'') 1,
       Poll ''B'' (example_ok ''10.0'' ''100.0'') 1])) = [''A'', ''B'']
   \<and> map (load_percentage \<circ> snd) (substation_metrics (lb_run example_floats init_lb
      [Add ''A'', Add ''B'', Poll ''A'' (example_ok ''nan'' ''100.0'') 1,
       Poll ''B'' (example_ok ''10.0'' ''100.0'') 1])) = [NaN, Fin 10]
   \<and> get_least_loaded_substation (lb_run example_floats init_lb
      [Add ''A'', Add ''B'', Poll ''A'' (example_ok ''nan'' ''100.0'') 1,
       Poll ''B'' (example_ok ''10.0'' ''100.0'') 1]) = Some ''A''
   \<and> \<not> NaN \<le> Fin 10"
  by (simp add: lb_ev ex_ev)

text \<open>
  Claim C5. A 200 response whose body parses to \<open>(cl, tc)\<close> replaces the cached entry
  of that endpoint by \<open>cl\<close>, \<open>tc\<close>, the percentage \<open>cl / tc * 100\<close> (0 when
  \<open>total_capacity > 0\<close> is false) and the clock reading, leaving every other entry as
  it was. On finite values the percentage is the real number \<open>c / t * 100\<close>, and 0
  when \<open>t \<le> 0\<close>. A response with another status, an exception of the request, and a
  body on which \<open>float\<close> raises all return \<open>False\<close> with the state unchanged. No
  poll changes the registry list.
\<close>

theorem poll_substation_metrics_cases:
  "(parse_metrics tf body = Some (cl, tc) \<longrightarrow>
      poll_substation_metrics tf s url (Response 200 body) now
        = (s\<lparr>substation_metrics :=
               dict_set (substation_metrics s) url
                 \<lparr>m_current_load = cl, m_total_capacity = tc,
                  load_percentage =
                    (if Fin 0 < tc then float_mul (float_div cl tc) (Fin 100) else Fin 0),
                  last_updated = now\<rparr>\<rparr>, True)
      \<and> dict_get (substation_metrics
            (fst (poll_substation_metrics tf s url (Response 200 body) now))) url
          = Some \<lparr>m_current_load = cl, m_total_capacity = tc,
                  load_percentage =
                    (if Fin 0 < tc then float_mul (float_div cl tc) (Fin 100) else Fin 0),
                  last_updated = now\<rparr>
      \<and> (\<forall>u. u \<noteq> url \<longrightarrow>
            dict_get (substation_metrics
              (fst (poll_substation_metrics tf s url (Response 200 body) now))) u
            = dict_get (substation_metrics s) u))
   \<and> (if Fin 0 < Fin t then float_mul (float_div (Fin c) (Fin t)) (Fin 100) else Fin 0)
       = Fin (if 0 < t then c / t * 100 else 0)
   \<and> (status_code \<noteq> 200 \<longrightarrow>
        poll_substation_metrics tf s url (Response status_code body) now = (s, False))
   \<and> poll_substation_metrics tf s url (RequestException e) now = (s, False)
   \<and> (parse_metrics tf body = None \<longrightarrow>
        poll_substation_metrics tf s url (Response 200 body) now = (s, False))
   \<and> substations (fst (poll_substation_metrics tf s url resp now)) = substations s"
  by (auto simp: poll_substation_metrics_def compute_percentage_def dict_get_set
        less_pyfloat_def split: http_result.splits option.splits)

text \<open>A poll at 20 of 80 kW, then a 503 and an unparsable body that leave the entry alone.\<close>

theorem poll_substation_metrics_cases_witness:
  "poll_substation_metrics example_floats
       (lb_run example_floats init_lb [Add ''A'']) ''A'' (example_ok ''20.0'' ''80.0'') 7
     = (\<lparr>substations = [''A''],
         substation_metrics =
           [(''A'', \<lparr>m_current_load = Fin 20, m_total_capacity = Fin 80,
                     load_percentage = Fin 25, last_updated = 7\<rparr>)]\<rparr>, True)
   \<and> poll_substation_metrics example_floats
       (lb_run example_floats init_lb [Add ''A'', Poll ''A'' (example_ok ''20.0'' ''80.0'') 7])
       ''A'' (Response 503 ''busy'') 12
     = (lb_run example_floats init_lb [Add ''A'', Poll ''A'' (example_ok ''20.0'' ''80.0'') 7],
        False)
   \<and> poll_substation_metrics example_floats
       (lb_run example_floats init_lb [Add ''A'', Poll ''A'' (example_ok ''20.0'' ''80.0'') 7])
       ''A'' (Response 200 ''current_load n/a'') 12
     = (lb_run example_floats init_lb [Add ''A'', Poll ''A'' (example_ok ''20.0'' ''80.0'') 7],
        False)"
  using poll_substation_metrics_cases [of example_floats "example_body ''20.0'' ''80.0''"
          "Fin 20" "Fin 80" "lb_run example_floats init_lb [Add ''A'']" "''A''" 7 80 20 503
          "''timed out''" "Response 200 (example_body ''20.0'' ''80.0'')"]
        poll_substation_metrics_cases [of example_floats "''current_load n/a''" "Fin 0" "Fin 1"
          "lb_run example_floats init_lb [Add ''A'', Poll ''A'' (example_ok ''20.0'' ''80.0'') 7]"
          "''A''" 12 1 0 503 "''timed out''" "Response 503 ''busy''"]
  by (simp add: lb_ev ex_ev)

text \<open>
  Claim C9. When no line of a 200 body starts with \<open>current_load \<close> or
  \<open>total_capacity \<close>, the loop keeps its initial values and the poller caches load 0,
  capacity 1 and percentage 0 for the endpoint. The endpoint is then in the cache, and
  it is the one selected whenever every other cached entry has a positive percentage.
\<close>

theorem poll_unparsed_defaults:
  assumes "\<forall>line \<in> set (split_on CHR 0x0A body).
             \<not> startswith line ''current_load '' \<and> \<not> startswith line ''total_capacity ''"
  shows "poll_substation_metrics tf s url (Response 200 body) now
        = (s\<lparr>substation_metrics :=
               dict_set (substation_metrics s) url
                 \<lparr>m_current_load = Fin 0, m_total_capacity = Fin 1, load_percentage = Fin 0,
                  last_updated = now\<rparr>\<rparr>, True)
    \<and> dict_contains
        (substation_metrics (fst (poll_substation_metrics tf s url (Response 200 body) now))) url
    \<and> ((\<forall>e \<in> set (substation_metrics s). fst e \<noteq> url \<longrightarrow> Fin 0 < load_percentage (snd e)) \<longrightarrow>
         get_least_loaded_substation
           (fst (poll_substation_metrics tf s url (Response 200 body) now)) = Some url)"
proof -
  define v where "v = \<lparr>m_current_load = Fin 0, m_total_capacity = Fin 1,
                  load_percentage = Fin 0, last_updated = now\<rparr>"
  define s' where "s' = s\<lparr>substation_metrics := dict_set (substation_metrics s) url v\<rparr>"
  have parse: "parse_metrics tf body = Some (Fin 0, Fin 1)"
    using assms by (simp add: parse_metrics_def parse_lines_no_match)
  then have poll: "poll_substation_metrics tf s url (Response 200 body) now = (s', True)"
    by (simp add: poll_substation_metrics_def compute_percentage_def s'_def v_def
          less_pyfloat_def)
  have cache: "substation_metrics s' = dict_set (substation_metrics s) url v"
    by (simp add: s'_def)
  have contains: "dict_contains (substation_metrics s') url"
    by (simp add: cache dict_contains_def dict_get_set)
  have pref: "get_least_loaded_substation s' = Some url"
    if others: "\<forall>e \<in> set (substation_metrics s). fst e \<noteq> url \<longrightarrow> Fin 0 < load_percentage (snd e)"
  proof -
    have mem: "(url, v) \<in> set (substation_metrics s')"
      by (simp add: cache in_dict_set)
    then obtain b rest where c: "substation_metrics s' = b # rest"
      by (cases "substation_metrics s'") auto
    have pos: "\<forall>x \<in> set (b # rest). fst x \<noteq> url \<longrightarrow> Fin 0 < load_percentage (snd x)"
      using others set_dict_set [of "substation_metrics s" url v]
      unfolding c [symmetric] cache by auto
    have "\<exists>x \<in> set (b # rest). fst x = url \<and> load_percentage (snd x) = Fin 0"
      using mem unfolding c by (intro bexI [of _ "(url, v)"]) (simp_all add: v_def)
    from min_from_prefers [OF pos this] show ?thesis
      by (simp add: get_least_loaded_substation_def py_min_def c)
  qed
  show ?thesis
    unfolding poll using contains pref by (simp add: s'_def v_def)
qed

text \<open>An HTML page answered with status 200 makes \<open>B\<close> the selected endpoint.\<close>

theorem poll_unparsed_defaults_witness:
  "poll_substation_metrics example_floats
       (lb_run example_floats init_lb
          [Add ''A'', Add ''B'', Poll ''A'' (example_ok ''20.0'' ''80.0'') 7])
       ''B'' (Response 200 ''<html>ok</html>'') 8
     = (\<lparr>substations = [''A'', ''B''],
         substation_metrics =
           [(''A'', \<lparr>m_current_load = Fin 20, m_total_capacity = Fin 80,
                     load_percentage = Fin 25, last_updated = 7\<rparr>),
            (''B'', \<lparr>m_current_load = Fin 0, m_total_capacity = Fin 1,
                     load_percentage = Fin 0, last_updated = 8\<rparr>)]\<rparr>, True)
   \<and> get_least_loaded_substation (lb_run example_floats init_lb
          [Add ''A'', Add ''B'', Poll ''A'' (example_ok ''20.0'' ''80.0'') 7,
           Poll ''B'' (Response 200 ''<html>ok</html>'') 8]) = Some ''B''"
  using poll_unparsed_defaults [of "''<html>ok</html>''" example_floats
          "lb_run example_floats init_lb
             [Add ''A'', Add ''B'', Poll ''A'' (example_ok ''20.0'' ''80.0'') 7]" "''B''" 8]
  by (simp add: lb_ev ex_ev)

text \<open>
  Claim C6, as amended. On a cache none of whose percentages is NaN, among the cached
  entries tied at the least percentage \<open>get_least_loaded_substation\<close> returns the
  first one in the iteration order of the telemetry cache, that is, the order in which
  the endpoints were first polled with success since they were last removed. The
  function reads the state and returns a value, so two calls on the same cache give the
  same endpoint.
\<close>

theorem least_loaded_first_in_cache:
  "nan_free (substation_metrics s) \<Longrightarrow>
   get_least_loaded_substation s =
     map_option fst (find (\<lambda>e. \<forall>e' \<in> set (substation_metrics s).
                                 load_percentage (snd e) \<le> load_percentage (snd e'))
                          (substation_metrics s))"
  using least_loaded_find [of s] by (simp add: is_minimal_def)

text \<open>\<open>B\<close> and \<open>C\<close> tie at 50 per cent; \<open>C\<close> entered the cache first and is chosen.\<close>

theorem least_loaded_first_in_cache_witness:
  "nan_free (substation_metrics (lb_run example_floats init_lb
      [Add ''A'', Add ''B'', Add ''C'',
       Poll ''A'' (example_ok ''80.0'' ''100.0'') 1,
       Poll ''B'' (RequestException ''timed out'') 1,
       Poll ''C'' (example_ok ''50.0'' ''100.0'') 1,
       Poll ''B'' (example_ok ''50.0'' ''100.0'') 6]))
   \<and> map fst (substation_metrics (lb_run example_floats init_lb
      [Add ''A'', Add ''B'', Add ''C'',
       Poll ''A'' (example_ok ''80.0'' ''100.0'') 1,
       Poll ''B'' (RequestException ''timed out'') 1,
       Poll ''C'' (example_ok ''50.0'' ''100.0'') 1,
       Poll ''B'' (example_ok ''50.0'' ''100.0'') 6])) = [''A'', ''C'', ''B'']
   \<and> get_least_loaded_substation (lb_run example_floats init_lb
      [Add ''A'', Add ''B'', Add ''C'',
       Poll ''A'' (example_ok ''80.0'' ''100.0'') 1,
       Poll ''B'' (RequestException ''timed out'') 1,
       Poll ''C'' (example_ok ''50.0'' ''100.0'') 1,
       Poll ''B'' (example_ok ''50.0'' ''100.0'') 6]) = Some ''C''"
  using least_loaded_first_in_cache [of "lb_run example_floats init_lb
      [Add ''A'', Add ''B'', Add ''C'',
       Poll ''A'' (example_ok ''80.0'' ''100.0'') 1,
       Poll ''B'' (RequestException ''timed out'') 1,
       Poll ''C'' (example_ok ''50.0'' ''100.0'') 1,
       Poll ''B'' (example_ok ''50.0'' ''100.0'') 6]"]
  by (simp add: lb_ev ex_ev)

text \<open>
  Claim C6 as stated fails twice. The registry lists \<open>A\<close> before \<open>B\<close>; the first poll
  of \<open>A\<close> times out, so \<open>B\<close> enters the cache before \<open>A\<close>, and with both cached at
  50 per cent the registry order would give \<open>A\<close> while the code returns \<open>B\<close>. And
  with \<open>A\<close> cached at NaN before \<open>B\<close> and \<open>C\<close> tied at 10 per cent, the code returns
  \<open>A\<close>, which is none of the tied endpoints.
\<close>

theorem least_loaded_registry_order_counterexample:
  "substations (lb_run example_floats init_lb
      [Add ''A'', Add ''B'',
       Poll ''A'' (RequestException ''timed out'') 1,
       Poll ''B'' (example_ok ''50.0'' ''100.0'') 1,
       Poll ''A'' (example_ok ''50.0'' ''100.0'') 6]) = [''A'', ''B'']
   \<and> map (load_percentage \<circ> snd) (substation_metrics (lb_run example_floats init_lb
      [Add ''A'', Add ''B'',
       Poll ''A'' (RequestException ''timed out'') 1,
       Poll ''B'' (example_ok ''50.0'' ''100.0'') 1,
       Poll ''A'' (example_ok ''50.0'' ''100.0'') 6])) = [Fin 50, Fin 50]
   \<and> select_in_registry_order (lb_run example_floats init_lb
      [Add ''A'', Add ''B'',
       Poll ''A'' (RequestException ''timed out'') 1,
       Poll ''B'' (example_ok ''50.0'' ''100.0'') 1,
       Poll ''A'' (example_ok ''50.0'' ''100.0'') 6]) = Some ''A''
   \<and> get_least_loaded_substation (lb_run example_floats init_lb
      [Add ''A'', Add ''B'',
       Poll ''A'' (RequestException ''timed out'') 1,
       Poll ''B'' (example_ok ''50.0'' ''100.0'') 1,
       Poll ''A'' (example_ok ''50.0'' ''100.0'') 6]) = Some ''B''
   \<and> map fst (substation_metrics (lb_run example_floats init_lb
      [Add ''A'', Add ''B'', Add ''C'',
       Poll ''A'' (example_ok ''nan'' ''100.0'') 1,
       Poll ''B'' (example_ok ''10.0'' ''100.0'') 1,
       Poll ''C'' (example_ok ''10.0'' ''100.0'') 1])) = [''A'', ''B'', ''C'']
   \<and> map (load_percentage \<circ> snd) (substation_metrics (lb_run example_floats init_lb
      [Add ''A'', Add ''B'', Add ''C'',
       Poll ''A'' (example_ok ''nan'' ''100.0'') 1,
       Poll ''B'' (example_ok ''10.0'' ''100.0'') 1,
       Poll ''C'' (example_ok ''10.0'' ''100.0'') 1])) = [NaN, Fin 10, Fin 10]
   \<and> get_least_loaded_substation (lb_run example_floats init_lb
      [Add ''A'', Add ''B'', Add ''C'',
       Poll ''A'' (example_ok ''nan'' ''100.0'') 1,
       Poll ''B'' (example_ok ''10.0'' ''100.0'') 1,
       Poll ''C'' (example_ok ''10.0'' ''100.0'') 1]) = Some ''A''"
  by (simp add: lb_ev ex_ev select_in_registry_order_def is_minimal_def)

text \<open>
  Claim C7. In every state reached from the initial one by adds, removes and polls:
  adding a present endpoint returns \<open>False\<close> and changes nothing, adding an absent
  one returns \<open>True\<close> and appends it; removing an absent endpoint returns
  \<open>False\<close> and changes nothing; removing a present one returns \<open>True\<close>, takes it
  out of the registry and drops its cached telemetry only. A second removal then
  returns \<open>False\<close>, and adding it again returns \<open>True\<close> with no cached telemetry for
  it.
\<close>

theorem registry_add_remove:
  assumes "s = lb_run tf init_lb ops"
  shows "(url \<in> set (substations s) \<longrightarrow> add_substation s url = (s, False))
    \<and> (url \<notin> set (substations s) \<longrightarrow>
         add_substation s url = (s\<lparr>substations := substations s @ [url]\<rparr>, True))
    \<and> (url \<notin> set (substations s) \<longrightarrow> remove_substation s url = (s, False))
    \<and> (url \<in> set (substations s) \<longrightarrow>
         snd (remove_substation s url) = True
         \<and> set (substations (fst (remove_substation s url))) = set (substations s) - {url}
         \<and> dict_get (substation_metrics (fst (remove_substation s url))) url = None
         \<and> (\<forall>u. u \<noteq> url \<longrightarrow>
               dict_get (substation_metrics (fst (remove_substation s url))) u
               = dict_get (substation_metrics s) u)
         \<and> remove_substation (fst (remove_substation s url)) url
             = (fst (remove_substation s url), False)
         \<and> snd (add_substation (fst (remove_substation s url)) url) = True
         \<and> url \<in> set (substations (fst (add_substation (fst (remove_substation s url)) url)))
         \<and> dict_get (substation_metrics
               (fst (add_substation (fst (remove_substation s url)) url))) url = None)"
proof -
  have "distinct (substations init_lb)" by (simp add: init_lb_def)
  then have d: "distinct (substations s)"
    unfolding assms by (rule distinct_substations_run)
  show ?thesis
    using d
    by (auto simp: add_substation_def remove_substation_def dict_contains_def dict_get_del)
qed

text \<open>\<open>A\<close> is removed with its telemetry, removed again, added again, added again.\<close>

theorem registry_add_remove_witness:
  "remove_substation (lb_run example_floats init_lb
        [Add ''A'', Add ''B'', Poll ''A'' (example_ok ''20.0'' ''80.0'') 7]) ''A''
     = (\<lparr>substations = [''B''], substation_metrics = []\<rparr>, True)
   \<and> remove_substation \<lparr>substations = [''B''], substation_metrics = []\<rparr> ''A''
     = (\<lparr>substations = [''B''], substation_metrics = []\<rparr>, False)
   \<and> add_substation \<lparr>substations = [''B''], substation_metrics = []\<rparr> ''A''
     = (\<lparr>substations = [''B'', ''A''], substation_metrics = []\<rparr>, True)
   \<and> add_substation \<lparr>substations = [''B'', ''A''], substation_metrics = []\<rparr> ''A''
     = (\<lparr>substations = [''B'', ''A''], substation_metrics = []\<rparr>, False)"
  using registry_add_remove [of "lb_run example_floats init_lb
          [Add ''A'', Add ''B'', Poll ''A'' (example_ok ''20.0'' ''80.0'') 7]"
          example_floats "[Add ''A'', Add ''B'', Poll ''A'' (example_ok ''20.0'' ''80.0'') 7]"
          "''A''"]
  by (simp add: lb_ev ex_ev)

text \<open>
  Claim C8. \<open>stop_charging_session\<close> on an id that is not tracked returns the error
  \<open>Session not found\<close> and the state unchanged. On a tracked id, a 200 answer from
  the owning substation removes the tracked record; any other status, and an exception
  of the request, return an error and leave the state unchanged.
\<close>

theorem stop_charging_session_cases:
  "(dict_get (active_sessions s) session_id = None \<longrightarrow>
      stop_charging_session http_delete s session_id = (s, StopError ''Session not found''))
   \<and> (\<forall>sess. dict_get (active_sessions s) session_id = Some sess \<longrightarrow>
        (\<forall>body. http_delete (stop_url (t_substation_id sess) session_id) = Response 200 body \<longrightarrow>
           stop_charging_session http_delete s session_id
             = (s\<lparr>active_sessions := dict_del (active_sessions s) session_id\<rparr>,
                Stopped session_id)
           \<and> dict_get (active_sessions (fst (stop_charging_session http_delete s session_id)))
                session_id = None)
        \<and> (\<forall>code body. code \<noteq> 200
              \<and> http_delete (stop_url (t_substation_id sess) session_id) = Response code body \<longrightarrow>
           stop_charging_session http_delete s session_id
             = (s, StopError (''Failed to stop session: '' @ str_int code)))
        \<and> (\<forall>e. http_delete (stop_url (t_substation_id sess) session_id) = RequestException e \<longrightarrow>
           stop_charging_session http_delete s session_id = (s, StopError e)))"
  by (auto simp: stop_charging_session_def dict_get_del)

text \<open>An untracked id, then a tracked session under a 200, a 404 and a timeout.\<close>

theorem stop_charging_session_cases_witness:
  "stop_charging_session (\<lambda>u. Response 200 ''{}'')
       \<lparr>load_balancer_url = ''http://load_balancer:5001'', active_sessions = []\<rparr> ''7_EV_5''
     = (\<lparr>load_balancer_url = ''http://load_balancer:5001'', active_sessions = []\<rparr>,
        StopError ''Session not found'')
   \<and> stop_charging_session (\<lambda>u. if u = ''http://substation_7:5000/charge/7_EV_5''
            then Response 200 ''{}'' else RequestException ''unreachable'')
       \<lparr>load_balancer_url = ''http://load_balancer:5001'',
        active_sessions = [(''7_EV_5'', \<lparr>t_ev_id = ''EV'', t_requested_kw = 22,
           t_substation_id = 7, t_start_time = 5, t_duration_minutes = Some 60\<rparr>)]\<rparr> ''7_EV_5''
     = (\<lparr>load_balancer_url = ''http://load_balancer:5001'', active_sessions = []\<rparr>,
        Stopped ''7_EV_5'')
   \<and> stop_charging_session (\<lambda>u. Response 404 ''{}'')
       \<lparr>load_balancer_url = ''http://load_balancer:5001'',
        active_sessions = [(''7_EV_5'', \<lparr>t_ev_id = ''EV'', t_requested_kw = 22,
           t_substation_id = 7, t_start_time = 5, t_duration_minutes = Some 60\<rparr>)]\<rparr> ''7_EV_5''
     = (\<lparr>load_balancer_url = ''http://load_balancer:5001'',
        active_sessions = [(''7_EV_5'', \<lparr>t_ev_id = ''EV'', t_requested_kw = 22,
           t_substation_id = 7, t_start_time = 5, t_duration_minutes = Some 60\<rparr>)]\<rparr>,
        StopError ''Failed to stop session: 404'')
   \<and> stop_charging_session (\<lambda>u. RequestException ''timed out'')
       \<lparr>load_balancer_url = ''http://load_balancer:5001'',
        active_sessions = [(''7_EV_5'', \<lparr>t_ev_id = ''EV'', t_requested_kw = 22,
           t_substation_id = 7, t_start_time = 5, t_duration_minutes = Some 60\<rparr>)]\<rparr> ''7_EV_5''
     = (\<lparr>load_balancer_url = ''http://load_balancer:5001'',
        active_sessions = [(''7_EV_5'', \<lparr>t_ev_id = ''EV'', t_requested_kw = 22,
           t_substation_id = 7, t_start_time = 5, t_duration_minutes = Some 60\<rparr>)]\<rparr>,
        StopError ''timed out'')"
  using stop_charging_session_cases [of
          "\<lparr>load_balancer_url = ''http://load_balancer:5001'', active_sessions = []\<rparr>"
          "''7_EV_5''" "\<lambda>u. Response 200 ''{}''"]
        stop_charging_session_cases [of
          "\<lparr>load_balancer_url = ''http://load_balancer:5001'',
        active_sessions = [(''7_EV_5'', \<lparr>t_ev_id = ''EV'', t_requested_kw = 22,
           t_substation_id = 7, t_start_time = 5, t_duration_minutes = Some 60\<rparr>)]\<rparr>"
          "''7_EV_5''" "\<lambda>u. if u = ''http://substation_7:5000/charge/7_EV_5''
            then Response 200 ''{}'' else RequestException ''unreachable''"]
        stop_charging_session_cases [of
          "\<lparr>load_balancer_url = ''http://load_balancer:5001'',
        active_sessions = [(''7_EV_5'', \<lparr>t_ev_id = ''EV'', t_requested_kw = 22,
           t_substation_id = 7, t_start_time = 5, t_duration_minutes = Some 60\<rparr>)]\<rparr>"
          "''7_EV_5''" "\<lambda>u. Response 404 ''{}''"]
        stop_charging_session_cases [of
          "\<lparr>load_balancer_url = ''http://load_balancer:5001'',
        active_sessions = [(''7_EV_5'', \<lparr>t_ev_id = ''EV'', t_requested_kw = 22,
           t_substation_id = 7, t_start_time = 5, t_duration_minutes = Some 60\<rparr>)]\<rparr>"
          "''7_EV_5''" "\<lambda>u. RequestException ''timed out''"]
  by (simp add: stop_charging_session_def stop_url_def str_int_def str_nat.simps digit_char_def)

end
